theory Spec2Isabelle
  imports Main "HOL-Library.Word"
begin

section \<open>Values of the eclisp interpreter (lang/value.go)\<close>

subsection \<open>Type tags and errors\<close>

text \<open>
  \<^verbatim>\<open>type valueType interface{}\<close> with seven string constants. A tag is modelled as the
  string it holds; a target tag passed to a conversion may be any string.
\<close>

type_synonym valueType = string

definition stringType :: valueType where "stringType = ''stringType''"
definition intType :: valueType where "intType = ''intType''"
definition bigIntType :: valueType where "bigIntType = ''bigIntType''"
definition floatType :: valueType where "floatType = ''floatType''"
definition varType :: valueType where "varType = ''varType''"
definition boolType :: valueType where "boolType = ''boolType''"
definition astType :: valueType where "astType = ''astType''"

text \<open>A Go \<^verbatim>\<open>error\<close> built by \<^verbatim>\<open>errors.New\<close> is its message.\<close>

type_synonym error = string

text \<open>\<^verbatim>\<open>errors.New(fmt.Sprintf("Cannot convert %s to %s", from, to))\<close>\<close>

definition typeConvError :: "valueType \<Rightarrow> valueType \<Rightarrow> error" where
  "typeConvError from target = ''Cannot convert '' @ from @ '' to '' @ target"

subsection \<open>The variants\<close>

text \<open>
  An \<^verbatim>\<open>int64\<close> is a 64-bit word read as two's complement, a \<^verbatim>\<open>float64\<close> is its
  IEEE-754 binary64 bit pattern, a \<^verbatim>\<open>*big.Int\<close> is the integer it refers to, and a
  \<^verbatim>\<open>*ASTNode\<close> is an address. The interface \<^verbatim>\<open>Value\<close> has one implementation per
  struct of the file; a nil interface value is \<open>None\<close> of \<open>Value option\<close>.
\<close>

type_synonym int64 = "64 word"
type_synonym uint64 = "64 word"
type_synonym float64 = "64 word"
type_synonym ASTNodeRef = nat

datatype Value =
    StringValue (str_value: string)
  | IntValue (int_value: int64)
  | BigIntValue (big_value: int)
  | FloatValue (float_value: float64)
  | VarValue (var_value: string) (varName: string)
  | BoolValue (bool_value: bool)
  | AstValue (astNodes: "ASTNodeRef list") (parentASTNode: ASTNodeRef)

fun getValueType :: "Value \<Rightarrow> valueType" where
  "getValueType (StringValue _) = stringType"
| "getValueType (IntValue _) = intType"
| "getValueType (BigIntValue _) = bigIntType"
| "getValueType (FloatValue _) = floatType"
| "getValueType (VarValue _ _) = varType"
| "getValueType (BoolValue _) = boolType"
| "getValueType (AstValue _ _) = astType"

subsection \<open>Rounding to binary64\<close>

text \<open>
  The conversion \<^verbatim>\<open>float64(v.value)\<close> and \<^verbatim>\<open>strconv.ParseFloat\<close> round an exact
  value to the nearest binary64, ties to even. \<open>round_binary64 n d\<close> is the bit pattern
  (without the sign bit) of the non-negative rational \<open>n / d\<close> rounded so; a result of
  \<open>0x7FF0000000000000\<close> or more means the value overflowed to infinity.
\<close>

function bitlen :: "int \<Rightarrow> int" where
  "bitlen n = (if n \<le> 0 then 0 else 1 + bitlen (n div 2))"
  by pat_completeness auto
termination
  by (relation "measure nat") auto

declare bitlen.simps [simp del]

definition ilog2 :: "int \<Rightarrow> int \<Rightarrow> int" where
  "ilog2 n d =
     (let e = bitlen n - bitlen d
      in if (if 0 \<le> e then d * 2 ^ nat e \<le> n else d \<le> n * 2 ^ nat (- e)) then e else e - 1)"

definition round_even :: "int \<Rightarrow> int \<Rightarrow> int" where
  "round_even n d =
     (let q = n div d; r = n mod d
      in if 2 * r < d then q
         else if d < 2 * r then q + 1
         else if even q then q else q + 1)"

definition round_binary64 :: "int \<Rightarrow> int \<Rightarrow> int" where
  "round_binary64 n d =
     (if n = 0 then 0
      else let p = max (ilog2 n d - 52) (- 1074);
               m = (if 0 \<le> p then round_even n (d * 2 ^ nat p)
                    else round_even (n * 2 ^ nat (- p)) d)
           in (p + 1074) * 2 ^ 52 + m)"

definition inf_bits :: int where
  "inf_bits = 2047 * 2 ^ 52"

definition sign_bit :: "bool \<Rightarrow> int" where
  "sign_bit neg = (if neg then 2 ^ 63 else 0)"

text \<open>\<^verbatim>\<open>float64(i)\<close> for an \<^verbatim>\<open>int64\<close>: every int64 is below the overflow threshold.\<close>

definition float64_of_int64 :: "int64 \<Rightarrow> float64" where
  "float64_of_int64 i =
     word_of_int (sign_bit (sint i < 0) + round_binary64 \<bar>sint i\<bar> 1)"

subsection \<open>Conversions\<close>

text \<open>One function per method \<^verbatim>\<open>to\<close>; the receiver's fields are the first arguments.\<close>

definition stringValue_to :: "string \<Rightarrow> valueType \<Rightarrow> error + Value" where
  "stringValue_to v targetType =
     (if targetType = stringType then Inr (StringValue v)
      else Inl (typeConvError stringType targetType))"

definition intValue_to :: "int64 \<Rightarrow> valueType \<Rightarrow> error + Value" where
  "intValue_to v targetType =
     (if targetType = intType then Inr (IntValue v)
      else if targetType = bigIntType then Inr (BigIntValue (sint v))
      else if targetType = floatType then Inr (FloatValue (float64_of_int64 v))
      else Inl (typeConvError intType targetType))"

text \<open>
  \<^verbatim>\<open>(*big.Int).Int64\<close> returns the low 64 bits of the magnitude, negated for a negative
  number: the integer modulo \<open>2 ^ 64\<close>, read as two's complement.
\<close>

definition big_Int64 :: "int \<Rightarrow> int64" where
  "big_Int64 x = (if x < 0 then - word_of_int \<bar>x\<bar> else word_of_int \<bar>x\<bar>)"

definition bigIntValue_to :: "int \<Rightarrow> valueType \<Rightarrow> error + Value" where
  "bigIntValue_to v targetType =
     (if targetType = intType then
        (let intRep = big_Int64 v
         in if v = sint intRep then Inr (IntValue intRep)
            else Inl (typeConvError bigIntType targetType))
      else Inl (typeConvError bigIntType targetType))"

definition floatValue_to :: "float64 \<Rightarrow> valueType \<Rightarrow> error + Value" where
  "floatValue_to v targetType =
     (if targetType = floatType then Inr (FloatValue v)
      else Inl (typeConvError floatType targetType))"

definition varValue_to :: "string \<Rightarrow> string \<Rightarrow> valueType \<Rightarrow> error + Value" where
  "varValue_to v name targetType = Inl (typeConvError varType targetType)"

definition boolValue_to :: "bool \<Rightarrow> valueType \<Rightarrow> error + Value" where
  "boolValue_to v targetType = Inl (typeConvError boolType targetType)"

definition astValue_to :: "ASTNodeRef list \<Rightarrow> ASTNodeRef \<Rightarrow> valueType \<Rightarrow> error + Value" where
  "astValue_to nodes parent targetType = Inl (typeConvError astType targetType)"

text \<open>The interface call \<^verbatim>\<open>v.to(targetType)\<close> dispatches on the dynamic type.\<close>

fun Value_to :: "Value \<Rightarrow> valueType \<Rightarrow> error + Value" where
  "Value_to (StringValue v) t = stringValue_to v t"
| "Value_to (IntValue v) t = intValue_to v t"
| "Value_to (BigIntValue v) t = bigIntValue_to v t"
| "Value_to (FloatValue v) t = floatValue_to v t"
| "Value_to (VarValue v n) t = varValue_to v n t"
| "Value_to (BoolValue v) t = boolValue_to v t"
| "Value_to (AstValue ns p) t = astValue_to ns p t"

subsection \<open>The environment and variable resolution\<close>

text \<open>
  Modelled from the spec: the struct \<^verbatim>\<open>LangEnv\<close> is declared outside value.go. It is
  ``two name-keyed mappings, one from variable name to currently bound Value, one from
  operator name to an operator definition, both with unique keys''. A Go map lookup of
  an absent key yields nil, which is \<open>None\<close> here; \<^verbatim>\<open>getVarValue\<close> only tests the
  result of the lookup against nil, so a key bound to nil is the same as an absent key.
  The operator definitions are a type parameter.
\<close>

record 'op LangEnv =
  varMap :: "string \<rightharpoonup> Value"
  opMap :: "string \<rightharpoonup> 'op"

definition getVarValue :: "'op LangEnv \<Rightarrow> Value option \<Rightarrow> error + Value" where
  "getVarValue env varVal =
     (case varVal of
        None \<Rightarrow> Inl ''Error while resolving variable.''
      | Some v \<Rightarrow>
          if getValueType v = varType then
            (let name = (case v of VarValue _ n \<Rightarrow> n | _ \<Rightarrow> '''')
             in case varMap env name of
                  Some val \<Rightarrow> Inr val
                | None \<Rightarrow>
                    (case opMap env name of
                       Some opVal \<Rightarrow> Inr v
                     | None \<Rightarrow> Inl (''Undefined variable: '' @ name)))
          else Inl ''Error while resolving variable.'')"

section \<open>The Go library functions that value.go calls\<close>

text \<open>
  \<^verbatim>\<open>strconv\<close>, \<^verbatim>\<open>math/big\<close> and \<^verbatim>\<open>regexp\<close> belong to the Go distribution, not to the
  repository. They are modelled after the current Go sources, specialised to the constant
  arguments of the calls in value.go (base 0, 64 bits, decimal output). A Go string is a
  sequence of bytes, as a \<open>string\<close> is here.
\<close>

subsection \<open>Bytes\<close>

definition byte :: "char \<Rightarrow> int" where
  "byte c = of_char c"

text \<open>\<^verbatim>\<open>func lower(c byte) byte { return c | ('x' - 'X') }\<close>: sets bit 5.\<close>

fun lower :: "char \<Rightarrow> char" where
  "lower (Char b0 b1 b2 b3 b4 b5 b6 b7) = Char b0 b1 b2 b3 b4 True b6 b7"

definition is_digit :: "char \<Rightarrow> bool" where
  "is_digit c = (byte CHR ''0'' \<le> byte c \<and> byte c \<le> byte CHR ''9'')"

definition in_range :: "char \<Rightarrow> char \<Rightarrow> char \<Rightarrow> bool" where
  "in_range lo hi c = (byte lo \<le> byte c \<and> byte c \<le> byte hi)"

subsection \<open>strconv.ParseInt(s, 0, 64)\<close>

datatype NumError = ErrSyntax | ErrRange

text \<open>
  \<^verbatim>\<open>underscoreOK\<close>: an underscore may stand only between digits or between a base prefix
  and a digit. \<open>saw\<close> is the last character class seen: \<open>^\<close> at the beginning,
  \<open>0\<close> a digit or base prefix, \<open>_\<close> an underscore, \<open>!\<close> anything else.
\<close>

fun underscoreOK_loop :: "bool \<Rightarrow> char \<Rightarrow> string \<Rightarrow> bool" where
  "underscoreOK_loop hex saw [] = (saw \<noteq> CHR ''_'')"
| "underscoreOK_loop hex saw (c # cs) =
     (if is_digit c \<or> (hex \<and> in_range CHR ''a'' CHR ''f'' (lower c))
        then underscoreOK_loop hex CHR ''0'' cs
      else if c = CHR ''_''
        then (if saw \<noteq> CHR ''0'' then False else underscoreOK_loop hex CHR ''_'' cs)
      else if saw = CHR ''_'' then False
      else underscoreOK_loop hex CHR ''!'' cs)"

definition underscoreOK :: "string \<Rightarrow> bool" where
  "underscoreOK s0 =
     (let s = (if 1 \<le> length s0 \<and> (hd s0 = CHR ''-'' \<or> hd s0 = CHR ''+'') then tl s0 else s0)
      in if 2 \<le> length s \<and> s ! 0 = CHR ''0'' \<and>
            (lower (s ! 1) = CHR ''b'' \<or> lower (s ! 1) = CHR ''o'' \<or> lower (s ! 1) = CHR ''x'')
         then underscoreOK_loop (lower (s ! 1) = CHR ''x'') CHR ''0'' (drop 2 s)
         else underscoreOK_loop False CHR ''^'' s)"

text \<open>The digit value of a byte in \<^verbatim>\<open>ParseUint\<close>; \<open>None\<close> is the syntax error.\<close>

definition digit_val :: "char \<Rightarrow> uint64 option" where
  "digit_val c =
     (if is_digit c then Some (word_of_int (byte c - byte CHR ''0''))
      else if in_range CHR ''a'' CHR ''z'' (lower c)
        then Some (word_of_int (byte (lower c) - byte CHR ''a'' + 10))
      else None)"

definition maxUint64 :: uint64 where
  "maxUint64 = - 1"

text \<open>
  The loop of \<^verbatim>\<open>ParseUint\<close> over the bytes after the prefix, in 64-bit unsigned
  arithmetic. It returns the number, whether an underscore was seen, and the error.
\<close>

fun ParseUint_loop :: "uint64 \<Rightarrow> uint64 \<Rightarrow> bool \<Rightarrow> string \<Rightarrow> uint64 \<times> bool \<times> NumError option" where
  "ParseUint_loop base n underscores [] = (n, underscores, None)"
| "ParseUint_loop base n underscores (c # cs) =
     (if c = CHR ''_'' then ParseUint_loop base n True cs
      else case digit_val c of
        None \<Rightarrow> (0, underscores, Some ErrSyntax)
      | Some d \<Rightarrow>
          if base \<le> d then (0, underscores, Some ErrSyntax)
          else if maxUint64 div base + 1 \<le> n then (maxUint64, underscores, Some ErrRange)
          else let n' = n * base; n1 = n' + d
               in if n1 < n' \<or> maxUint64 < n1 then (maxUint64, underscores, Some ErrRange)
                  else ParseUint_loop base n1 underscores cs)"

definition ParseUint :: "string \<Rightarrow> uint64 \<times> NumError option" where
  "ParseUint s0 =
     (if s0 = [] then (0, Some ErrSyntax)
      else let (base, s) =
                 (if hd s0 = CHR ''0'' then
                    (if 3 \<le> length s0 \<and> lower (s0 ! 1) = CHR ''b'' then (2, drop 2 s0)
                     else if 3 \<le> length s0 \<and> lower (s0 ! 1) = CHR ''o'' then (8, drop 2 s0)
                     else if 3 \<le> length s0 \<and> lower (s0 ! 1) = CHR ''x'' then (16, drop 2 s0)
                     else (8, drop 1 s0))
                  else (10, s0))
           in case ParseUint_loop base 0 False s of
                (n, underscores, Some e) \<Rightarrow> (n, Some e)
              | (n, underscores, None) \<Rightarrow>
                  if underscores \<and> \<not> underscoreOK s0 then (0, Some ErrSyntax) else (n, None))"

definition ParseInt :: "string \<Rightarrow> int64 \<times> NumError option" where
  "ParseInt s0 =
     (if s0 = [] then (0, Some ErrSyntax)
      else let neg = (hd s0 = CHR ''-'');
               s = (if hd s0 = CHR ''+'' \<or> hd s0 = CHR ''-'' then tl s0 else s0);
               (un, err) = ParseUint s
           in if err \<noteq> None \<and> err \<noteq> Some ErrRange then (0, err)
              else let cutoff = (2 ^ 63 :: uint64)
                   in if \<not> neg \<and> cutoff \<le> un then (cutoff - 1, Some ErrRange)
                      else if neg \<and> cutoff < un then (- cutoff, Some ErrRange)
                      else (if neg then - un else un, None))"

subsection \<open>strconv.FormatInt(i, 10) and (*big.Int).String\<close>

definition digit_char :: "int \<Rightarrow> char" where
  "digit_char d = char_of (byte CHR ''0'' + d)"

text \<open>The decimal digits of a non-negative integer, most significant first.\<close>

function decimal :: "int \<Rightarrow> string" where
  "decimal u = (if u < 10 then [digit_char u] else decimal (u div 10) @ [digit_char (u mod 10)])"
  by pat_completeness auto
termination
  by (relation "measure nat") auto

declare decimal.simps [simp del]

text \<open>\<^verbatim>\<open>formatBits(nil, uint64(i), 10, i < 0, false)\<close>: the magnitude is negated as a uint64.\<close>

definition FormatInt :: "int64 \<Rightarrow> string" where
  "FormatInt i =
     (let neg = (sint i < 0); u = (if neg then - i else i)
      in (if neg then ''-'' else []) @ decimal (uint u))"

definition big_String :: "int \<Rightarrow> string" where
  "big_String x = (if x < 0 then ''-'' @ decimal (- x) else decimal x)"

subsection \<open>(*big.Int).SetString(s, 0)\<close>

text \<open>\<^verbatim>\<open>scanSign\<close>: reading from an empty input is an error; a byte that is no sign is unread.\<close>

definition scanSign :: "string \<Rightarrow> (bool \<times> string) option" where
  "scanSign s =
     (case s of
        [] \<Rightarrow> None
      | ch # r \<Rightarrow>
          if ch = CHR ''-'' then Some (True, r)
          else if ch = CHR ''+'' then Some (False, r)
          else Some (False, s))"

text \<open>The digit value of a byte in \<^verbatim>\<open>nat.scan\<close> for a base of at most 36; 63 is no digit.\<close>

definition scan_digit :: "char \<Rightarrow> int" where
  "scan_digit ch =
     (if in_range CHR ''0'' CHR ''9'' ch then byte ch - byte CHR ''0''
      else if in_range CHR ''a'' CHR ''z'' ch then byte ch - byte CHR ''a'' + 10
      else if in_range CHR ''A'' CHR ''Z'' ch then byte ch - byte CHR ''A'' + 10
      else 63)"

datatype ScanError = errNoDigits | errInvalSep

text \<open>
  The digit loop of \<^verbatim>\<open>nat.scan\<close> (base argument 0, no fraction). \<open>prev\<close> is \<open>_\<close>,
  \<open>0\<close> for a digit, or \<open>.\<close> for anything else. The loop stops at the end of the input
  or at the first byte that is no digit of base \<open>b\<close>, which stays unread. The source
  collects the digits in machine words; the result is the number they denote.
\<close>

fun scan_loop :: "int \<Rightarrow> char \<Rightarrow> bool \<Rightarrow> nat \<Rightarrow> int \<Rightarrow> string \<Rightarrow> char \<times> bool \<times> nat \<times> int \<times> string" where
  "scan_loop b prev invalSep count z [] = (prev, invalSep, count, z, [])"
| "scan_loop b prev invalSep count z (ch # r) =
     (if ch = CHR ''_'' then scan_loop b CHR ''_'' (invalSep \<or> prev \<noteq> CHR ''0'') count z r
      else let d1 = scan_digit ch
           in if b \<le> d1 then (prev, invalSep, count, z, ch # r)
              else scan_loop b CHR ''0'' invalSep (Suc count) (z * b + d1) r)"

text \<open>
  \<^verbatim>\<open>nat.scan\<close>: the base is 10 unless the input starts with \<open>0\<close> followed by another
  byte: \<open>b\<close>, \<open>o\<close>, \<open>x\<close> (either case) select base 2, 8, 16 and are skipped, any
  other byte selects base 8 and is scanned as a digit. The result is the number, the
  unread rest and the error.
\<close>

definition nat_scan :: "string \<Rightarrow> int \<times> string \<times> ScanError option" where
  "nat_scan s =
     (let (b, prefix, prev, count, r) =
            (case s of
               [] \<Rightarrow> (10, None, CHR ''.'', 0, [])
             | ch0 # r1 \<Rightarrow>
                 if ch0 = CHR ''0'' then
                   (case r1 of
                      [] \<Rightarrow> (10, None, CHR ''0'', 1, [])
                    | ch # r2 \<Rightarrow>
                        if ch = CHR ''b'' \<or> ch = CHR ''B'' then (2, Some CHR ''b'', CHR ''0'', 0, r2)
                        else if ch = CHR ''o'' \<or> ch = CHR ''O'' then (8, Some CHR ''o'', CHR ''0'', 0, r2)
                        else if ch = CHR ''x'' \<or> ch = CHR ''X'' then (16, Some CHR ''x'', CHR ''0'', 0, r2)
                        else (8, Some CHR ''0'', CHR ''0'', 0, r1))
                 else (10, None, CHR ''.'', 0, s))
      in case scan_loop b prev False count 0 r of
           (prev', invalSep, count', z, rest) \<Rightarrow>
             (let err = (if invalSep \<or> prev' = CHR ''_'' then Some errInvalSep else None)
              in if count' = 0 then
                   (if prefix = Some CHR ''0'' then (0, rest, err) else (z, rest, Some errNoDigits))
                 else (z, rest, err)))"

text \<open>
  \<^verbatim>\<open>SetString\<close> succeeds when the scan reports no error and has consumed the whole
  string; \<open>None\<close> is \<^verbatim>\<open>ok == false\<close>.
\<close>

definition SetString :: "string \<Rightarrow> int option" where
  "SetString s =
     (case scanSign s of
        None \<Rightarrow> None
      | Some (neg, r) \<Rightarrow>
          (case nat_scan r of
             (z, rest, err) \<Rightarrow>
               if err \<noteq> None then None
               else if rest \<noteq> [] then None
               else Some (if neg then - z else z)))"

subsection \<open>strconv.ParseFloat(s, 64)\<close>

fun commonPrefixLenIgnoreCase :: "string \<Rightarrow> string \<Rightarrow> int" where
  "commonPrefixLenIgnoreCase (c # s) (p # prefix) =
     (let c' = (if in_range CHR ''A'' CHR ''Z'' c
                then char_of (byte c + (byte CHR ''a'' - byte CHR ''A'')) else c)
      in if c' \<noteq> p then 0 else 1 + commonPrefixLenIgnoreCase s prefix)"
| "commonPrefixLenIgnoreCase _ _ = 0"

definition NaN_bits :: float64 where
  "NaN_bits = 0x7FF8000000000001"

text \<open>
  \<^verbatim>\<open>special\<close> recognises \<open>inf\<close>, \<open>infinity\<close> (with an optional sign) and \<open>nan\<close>, in
  any case, and returns the value with the number of bytes it covers.
\<close>

definition special_inf :: "bool \<Rightarrow> int \<Rightarrow> string \<Rightarrow> (float64 \<times> int) option" where
  "special_inf neg nsign s =
     (let n0 = commonPrefixLenIgnoreCase s ''infinity'';
          n = (if 3 < n0 \<and> n0 < 8 then 3 else n0)
      in if n = 3 \<or> n = 8 then Some (word_of_int (sign_bit neg + inf_bits), nsign + n)
         else None)"

definition special :: "string \<Rightarrow> (float64 \<times> int) option" where
  "special s =
     (case s of
        [] \<Rightarrow> None
      | c # r \<Rightarrow>
          if c = CHR ''+'' \<or> c = CHR ''-'' then special_inf (c = CHR ''-'') 1 r
          else if c = CHR ''i'' \<or> c = CHR ''I'' then special_inf False 0 s
          else if c = CHR ''n'' \<or> c = CHR ''N'' then
            (if commonPrefixLenIgnoreCase s ''nan'' = 3 then Some (NaN_bits, 3) else None)
          else None)"

text \<open>
  The state of the mantissa loop of \<^verbatim>\<open>readFloat\<close>. The source keeps the first 19 digits
  in a uint64 and re-reads longer inputs exactly; \<open>mantissa\<close> holds all digits.
\<close>

record readFloat_state =
  sawdot :: bool
  sawdigits :: bool
  nd :: int
  dp :: int
  mantissa :: int
  underscores :: bool

fun readFloat_digits :: "bool \<Rightarrow> readFloat_state \<Rightarrow> string \<Rightarrow> readFloat_state \<times> string" where
  "readFloat_digits hex st [] = (st, [])"
| "readFloat_digits hex st (c # cs) =
     (if c = CHR ''_'' then readFloat_digits hex (st\<lparr>underscores := True\<rparr>) cs
      else if c = CHR ''.'' then
        (if sawdot st then (st, c # cs)
         else readFloat_digits hex (st\<lparr>sawdot := True, dp := nd st\<rparr>) cs)
      else if is_digit c then
        (if c = CHR ''0'' \<and> nd st = 0
         then readFloat_digits hex (st\<lparr>sawdigits := True, dp := dp st - 1\<rparr>) cs
         else readFloat_digits hex
                (st\<lparr>sawdigits := True, nd := nd st + 1,
                    mantissa := mantissa st * (if hex then 16 else 10) + (byte c - byte CHR ''0'')\<rparr>) cs)
      else if hex \<and> in_range CHR ''a'' CHR ''f'' (lower c) then
        readFloat_digits hex
          (st\<lparr>sawdigits := True, nd := nd st + 1,
              mantissa := mantissa st * 16 + (byte (lower c) - byte CHR ''a'' + 10)\<rparr>) cs
      else (st, c # cs))"

fun readFloat_exp :: "int \<Rightarrow> bool \<Rightarrow> string \<Rightarrow> int \<times> bool \<times> string" where
  "readFloat_exp e us [] = (e, us, [])"
| "readFloat_exp e us (c # cs) =
     (if c = CHR ''_'' then readFloat_exp e True cs
      else if is_digit c
        then readFloat_exp (if e < 10000 then e * 10 + (byte c - byte CHR ''0'') else e) us cs
      else (e, us, c # cs))"

text \<open>
  \<^verbatim>\<open>readFloat\<close> returns the sign, whether the number is hexadecimal, the mantissa, the
  exponent (of 2 for a hexadecimal number, of 10 otherwise) and the unread rest;
  \<open>None\<close> is \<^verbatim>\<open>ok == false\<close>.
\<close>

definition readFloat_finish ::
    "string \<Rightarrow> bool \<Rightarrow> bool \<Rightarrow> int \<Rightarrow> int \<Rightarrow> int \<Rightarrow> bool \<Rightarrow> string \<Rightarrow> (bool \<times> bool \<times> int \<times> int \<times> string) option" where
  "readFloat_finish s neg hex mant ndMant dpt us rest =
     (let exp = (if mant \<noteq> 0 then dpt - ndMant else 0)
      in if us \<and> \<not> underscoreOK (take (length s - length rest) s) then None
         else Some (neg, hex, mant, exp, rest))"

definition readFloat :: "string \<Rightarrow> (bool \<times> bool \<times> int \<times> int \<times> string) option" where
  "readFloat s =
     (case s of
        [] \<Rightarrow> None
      | c0 # _ \<Rightarrow>
          let neg = (c0 = CHR ''-'');
              s1 = (if c0 = CHR ''+'' \<or> c0 = CHR ''-'' then tl s else s);
              hex = (2 < length s1 \<and> s1 ! 0 = CHR ''0'' \<and> lower (s1 ! 1) = CHR ''x'');
              (st, r) = readFloat_digits hex
                 \<lparr>sawdot = False, sawdigits = False, nd = 0, dp = 0, mantissa = 0,
                  underscores = False\<rparr> (if hex then drop 2 s1 else s1)
          in if \<not> sawdigits st then None
             else let dp1 = (if sawdot st then dp st else nd st);
                      dp2 = (if hex then dp1 * 4 else dp1);
                      ndMant = (if hex then nd st * 4 else nd st)
                  in if r \<noteq> [] \<and> lower (hd r) = (if hex then CHR ''p'' else CHR ''e'') then
                       (case tl r of
                          [] \<Rightarrow> None
                        | c1 # _ \<Rightarrow>
                            let esign = (if c1 = CHR ''-'' then - 1 else 1);
                                r1 = (if c1 = CHR ''+'' \<or> c1 = CHR ''-'' then tl (tl r) else tl r)
                            in if r1 = [] \<or> \<not> is_digit (hd r1) then None
                               else (case readFloat_exp 0 (underscores st) r1 of
                                       (e, us, rest) \<Rightarrow>
                                         readFloat_finish s neg hex (mantissa st) ndMant
                                           (dp2 + e * esign) us rest))
                     else if hex then None
                     else readFloat_finish s neg hex (mantissa st) ndMant dp2 (underscores st) r)"

text \<open>
  \<^verbatim>\<open>ParseFloat\<close>: a syntax error unless the whole string is a special value or a
  number; the number is rounded to the nearest binary64, and a range error (with an
  infinity) is returned when it overflows.
\<close>

definition ParseFloat :: "string \<Rightarrow> float64 \<times> NumError option" where
  "ParseFloat s =
     (case special s of
        Some (val, n) \<Rightarrow> if n \<noteq> int (length s) then (0, Some ErrSyntax) else (val, None)
      | None \<Rightarrow>
          (case readFloat s of
             None \<Rightarrow> (0, Some ErrSyntax)
           | Some (neg, hex, mant, exp, rest) \<Rightarrow>
               if rest \<noteq> [] then (0, Some ErrSyntax)
               else let b = (if hex then 2 else 10);
                        bits = (if 0 \<le> exp then round_binary64 (mant * b ^ nat exp) 1
                                else round_binary64 mant (b ^ nat (- exp)))
                    in if inf_bits \<le> bits
                       then (word_of_int (sign_bit neg + inf_bits), Some ErrRange)
                       else (word_of_int (sign_bit neg + bits), None)))"

subsection \<open>strconv.FormatFloat(v, 'g', -1, 64)\<close>

















subsection \<open>regexp.MatchString\<close>

text \<open>
  The fragment of the regular expressions that value.go uses: character classes of byte
  ranges, concatenation, \<open>+\<close> and \<open>*\<close>. \<open>Null\<close> and \<open>Eps\<close> (no string, the empty
  string) are needed for the derivatives only.
\<close>

datatype regex =
    Null
  | Eps
  | Class "(char \<times> char) list"
  | Cat regex regex
  | Alt regex regex
  | Star regex
  | Plus regex

fun nullable :: "regex \<Rightarrow> bool" where
  "nullable Null = False"
| "nullable Eps = True"
| "nullable (Class rs) = False"
| "nullable (Cat r1 r2) = (nullable r1 \<and> nullable r2)"
| "nullable (Alt r1 r2) = (nullable r1 \<or> nullable r2)"
| "nullable (Star r) = True"
| "nullable (Plus r) = nullable r"

fun deriv :: "char \<Rightarrow> regex \<Rightarrow> regex" where
  "deriv c Null = Null"
| "deriv c Eps = Null"
| "deriv c (Class rs) = (if list_ex (\<lambda>(lo, hi). in_range lo hi c) rs then Eps else Null)"
| "deriv c (Cat r1 r2) =
     (if nullable r1 then Alt (Cat (deriv c r1) r2) (deriv c r2) else Cat (deriv c r1) r2)"
| "deriv c (Alt r1 r2) = Alt (deriv c r1) (deriv c r2)"
| "deriv c (Star r) = Cat (deriv c r) (Star r)"
| "deriv c (Plus r) = Cat (deriv c r) (Star r)"

text \<open>Whether the whole string matches.\<close>

fun matches :: "regex \<Rightarrow> string \<Rightarrow> bool" where
  "matches r [] = nullable r"
| "matches r (c # cs) = matches (deriv c r) cs"

text \<open>Whether some prefix of the string matches.\<close>

fun match_prefix :: "regex \<Rightarrow> string \<Rightarrow> bool" where
  "match_prefix r [] = nullable r"
| "match_prefix r (c # cs) = (nullable r \<or> match_prefix (deriv c r) cs)"

text \<open>
  \<^verbatim>\<open>regexp.MatchString(pattern, s)\<close> ``reports whether the string s contains any match
  of the regular expression pattern'': the pattern is not anchored.
\<close>

fun MatchString :: "regex \<Rightarrow> string \<Rightarrow> bool" where
  "MatchString r [] = nullable r"
| "MatchString r (c # cs) = (match_prefix r (c # cs) \<or> MatchString r cs)"

section \<open>Recognizers, constructors and rendering\<close>

subsection \<open>\<^verbatim>\<open>ofType\<close>\<close>

definition stringValue_ofType :: "string \<Rightarrow> bool" where
  "stringValue_ofType targetValue =
     (let valLen = length targetValue
      in if valLen < 2 then False
         else let f = targetValue ! 0; l = targetValue ! (valLen - 1)
              in if (f = CHR 0x27 \<and> l = CHR 0x27) \<or> (f = CHR 0x22 \<and> l = CHR 0x22) then True
                 else False)"

definition intValue_ofType :: "string \<Rightarrow> bool" where
  "intValue_ofType targetValue =
     (case ParseInt targetValue of (_, Some err) \<Rightarrow> False | (_, None) \<Rightarrow> True)"

definition bigIntValue_ofType :: "string \<Rightarrow> bool" where
  "bigIntValue_ofType targetValue =
     (case SetString targetValue of None \<Rightarrow> False | Some bigIntVal \<Rightarrow> True)"

definition floatValue_ofType :: "string \<Rightarrow> bool" where
  "floatValue_ofType targetValue =
     (case ParseFloat targetValue of (_, Some err) \<Rightarrow> False | (_, None) \<Rightarrow> True)"

text \<open>The pattern \<^verbatim>\<open>[a-zA-Z]+[a-zA-Z0-9]*\<close>.\<close>

definition varPattern :: regex where
  "varPattern =
     Cat (Plus (Class [(CHR ''a'', CHR ''z''), (CHR ''A'', CHR ''Z'')]))
         (Star (Class [(CHR ''a'', CHR ''z''), (CHR ''A'', CHR ''Z''), (CHR ''0'', CHR ''9'')]))"

definition varValue_ofType :: "string \<Rightarrow> bool" where
  "varValue_ofType targetValue =
     (let matched = MatchString varPattern targetValue
      in if matched = False then False else True)"

definition boolValue_ofType :: "string \<Rightarrow> bool" where
  "boolValue_ofType targetValue =
     (if targetValue = ''true'' \<or> targetValue = ''false'' then True else False)"

definition astValue_ofType :: "string \<Rightarrow> bool" where
  "astValue_ofType targetValue = False"

text \<open>The receiver of \<^verbatim>\<open>ofType\<close> and \<^verbatim>\<open>newValue\<close> only selects the method.\<close>

fun Value_ofType :: "Value \<Rightarrow> string \<Rightarrow> bool" where
  "Value_ofType (StringValue _) s = stringValue_ofType s"
| "Value_ofType (IntValue _) s = intValue_ofType s"
| "Value_ofType (BigIntValue _) s = bigIntValue_ofType s"
| "Value_ofType (FloatValue _) s = floatValue_ofType s"
| "Value_ofType (VarValue _ _) s = varValue_ofType s"
| "Value_ofType (BoolValue _) s = boolValue_ofType s"
| "Value_ofType (AstValue _ _) s = astValue_ofType s"

subsection \<open>\<^verbatim>\<open>newValue\<close>\<close>

text \<open>A method that returns the nil \<^verbatim>\<open>Value\<close> returns \<open>None\<close>.\<close>

definition stringValue_newValue :: "string \<Rightarrow> Value option" where
  "stringValue_newValue str = Some (StringValue str)"

definition intValue_newValue :: "string \<Rightarrow> Value option" where
  "intValue_newValue str =
     (case ParseInt str of (intVal, Some err) \<Rightarrow> None | (intVal, None) \<Rightarrow> Some (IntValue intVal))"

definition bigIntValue_newValue :: "string \<Rightarrow> Value option" where
  "bigIntValue_newValue str =
     (case SetString str of None \<Rightarrow> None | Some bigIntVal \<Rightarrow> Some (BigIntValue bigIntVal))"

definition floatValue_newValue :: "string \<Rightarrow> Value option" where
  "floatValue_newValue str =
     (case ParseFloat str of
        (floatVal, Some err) \<Rightarrow> None
      | (floatVal, None) \<Rightarrow> Some (FloatValue floatVal))"

definition varValue_newValue :: "string \<Rightarrow> Value option" where
  "varValue_newValue str = Some (VarValue str str)"

definition boolValue_newValue :: "string \<Rightarrow> Value option" where
  "boolValue_newValue str = Some (BoolValue (if str = ''true'' then True else False))"

definition astValue_newValue :: "string \<Rightarrow> Value option" where
  "astValue_newValue str = None"

fun Value_newValue :: "Value \<Rightarrow> string \<Rightarrow> Value option" where
  "Value_newValue (StringValue _) s = stringValue_newValue s"
| "Value_newValue (IntValue _) s = intValue_newValue s"
| "Value_newValue (BigIntValue _) s = bigIntValue_newValue s"
| "Value_newValue (FloatValue _) s = floatValue_newValue s"
| "Value_newValue (VarValue _ _) s = varValue_newValue s"
| "Value_newValue (BoolValue _) s = boolValue_newValue s"
| "Value_newValue (AstValue _ _) s = astValue_newValue s"

subsection \<open>\<^verbatim>\<open>Str\<close>\<close>

text \<open>
  Rendering takes its two printers as parameters: the pretty-printer \<^verbatim>\<open>getASTStr\<close> of
  the parse tree is outside value.go, and the properties that hold for every float
  printer are stated for every one. \<open>FormatFloat_g\<close> above is the printer of
  \<^verbatim>\<open>strconv.FormatFloat(v, 'g', -1, 64)\<close>.
\<close>

record printers =
  FormatFloat :: "float64 \<Rightarrow> string"
  getASTStr :: "ASTNodeRef \<Rightarrow> string"

definition stringValue_Str :: "string \<Rightarrow> string" where
  "stringValue_Str v = v"

definition intValue_Str :: "int64 \<Rightarrow> string" where
  "intValue_Str v = FormatInt v"

definition bigIntValue_Str :: "int \<Rightarrow> string" where
  "bigIntValue_Str v = big_String v"

definition floatValue_Str :: "printers \<Rightarrow> float64 \<Rightarrow> string" where
  "floatValue_Str pr v = FormatFloat pr v"

definition varValue_Str :: "string \<Rightarrow> string \<Rightarrow> string" where
  "varValue_Str v name = v"

definition boolValue_Str :: "bool \<Rightarrow> string" where
  "boolValue_Str v = (if v = True then ''true'' else ''false'')"

definition astValue_Str :: "printers \<Rightarrow> ASTNodeRef list \<Rightarrow> ASTNodeRef \<Rightarrow> string" where
  "astValue_Str pr nodes parent = getASTStr pr parent"

fun Value_Str :: "printers \<Rightarrow> Value \<Rightarrow> string" where
  "Value_Str pr (StringValue v) = stringValue_Str v"
| "Value_Str pr (IntValue v) = intValue_Str v"
| "Value_Str pr (BigIntValue v) = bigIntValue_Str v"
| "Value_Str pr (FloatValue v) = floatValue_Str pr v"
| "Value_Str pr (VarValue v n) = varValue_Str v n"
| "Value_Str pr (BoolValue v) = boolValue_Str v"
| "Value_Str pr (AstValue ns p) = astValue_Str pr ns p"

section \<open>Classification\<close>

text \<open>
  Modelled from the spec: \<^verbatim>\<open>builtinTypes()\<close> is defined outside value.go. The registry
  is ``a fixed, ordered sequence of recognizers'' with the precedence String, Int,
  BigInt, Float, Bool, Var; Ast is excluded. Its entries are zero values of the structs.
\<close>

definition builtinTypes :: "Value list" where
  "builtinTypes =
     [StringValue [], IntValue 0, BigIntValue 0, FloatValue 0, BoolValue False, VarValue [] []]"

text \<open>
  The registry holds values of the interface \<^verbatim>\<open>Value\<close>, and \<^verbatim>\<open>getValue\<close> calls only
  their methods \<^verbatim>\<open>ofType\<close> and \<^verbatim>\<open>newValue\<close>. An entry of the registry is modelled by
  these two methods, so that the loop is defined for every implementation of the
  interface, as the Go function is; \<open>iface\<close> gives the methods of a value of the file.
\<close>

record Value_iface =
  ofType :: "string \<Rightarrow> bool"
  newValue :: "string \<Rightarrow> Value option"

definition iface :: "Value \<Rightarrow> Value_iface" where
  "iface v = \<lparr>ofType = Value_ofType v, newValue = Value_newValue v\<rparr>"

text \<open>
  The loop of \<^verbatim>\<open>getValue\<close> over the registry: the first type whose \<^verbatim>\<open>ofType\<close> accepts
  the token constructs the result, which is returned with a nil error whatever
  \<^verbatim>\<open>newValue\<close> returned. The environment argument of \<^verbatim>\<open>getValue\<close> is not used.
\<close>

fun getValue_types :: "Value_iface list \<Rightarrow> string \<Rightarrow> error + Value option" where
  "getValue_types [] token = Inl (''Could not get type for token: '' @ token)"
| "getValue_types (t # types) token =
     (if ofType t token then Inr (newValue t token)
      else getValue_types types token)"

definition getValue :: "string \<Rightarrow> error + Value option" where
  "getValue token = getValue_types (map iface builtinTypes) token"

section \<open>Notions used in the proofs\<close>

text \<open>The number that a string of decimal digits denotes, after the digits \<open>a\<close>.\<close>

fun dval :: "int \<Rightarrow> string \<Rightarrow> int" where
  "dval a [] = a"
| "dval a (c # cs) = dval (a * 10 + (byte c - byte CHR ''0'')) cs"

text \<open>
  A decimal integer token: an optional sign and then decimal digits that do not begin
  with \<open>0\<close> (a leading \<open>0\<close> selects another base), and the number it denotes.
\<close>

definition token_digits :: "string \<Rightarrow> string" where
  "token_digits s = (if s \<noteq> [] \<and> (hd s = CHR ''-'' \<or> hd s = CHR ''+'') then tl s else s)"

definition decimal_token :: "string \<Rightarrow> bool" where
  "decimal_token s =
     (token_digits s \<noteq> [] \<and> list_all is_digit (token_digits s) \<and> hd (token_digits s) \<noteq> CHR ''0'')"

definition decimal_value :: "string \<Rightarrow> int" where
  "decimal_value s =
     (if s \<noteq> [] \<and> hd s = CHR ''-'' then - dval 0 (token_digits s) else dval 0 (token_digits s))"

text \<open>The bytes of the class \<^verbatim>\<open>[a-zA-Z]\<close>.\<close>

definition is_letter :: "char \<Rightarrow> bool" where
  "is_letter c = (in_range CHR ''a'' CHR ''z'' c \<or> in_range CHR ''A'' CHR ''Z'' c)"

text \<open>A regular expression that is syntactically seen to match no string.\<close>

fun dead :: "regex \<Rightarrow> bool" where
  "dead Null = True"
| "dead Eps = False"
| "dead (Class rs) = False"
| "dead (Cat r1 r2) = (dead r1 \<or> dead r2)"
| "dead (Alt r1 r2) = (dead r1 \<and> dead r2)"
| "dead (Star r) = False"
| "dead (Plus r) = dead r"

section \<open>Example inputs\<close>

text \<open>An environment that binds the variable \<open>x\<close> to \<open>Int(5)\<close> and the operator \<open>+\<close>.\<close>

definition example_env :: "unit LangEnv" where
  "example_env = \<lparr>varMap = [''x'' \<mapsto> IntValue 5], opMap = [''+'' \<mapsto> ()]\<rparr>"

text \<open>The token \<open>a\<close> between single quotes.\<close>

definition quoted_a :: string where
  "quoted_a = [CHR 0x27, CHR ''a'', CHR 0x27]"

text \<open>Printers that print nothing, where a rendering does not depend on them.\<close>

definition no_printers :: printers where
  "no_printers = \<lparr>FormatFloat = (\<lambda>f. []), getASTStr = (\<lambda>n. [])\<rparr>"



section \<open>Properties\<close>

lemmas valueType_defs =
  stringType_def intType_def bigIntType_def floatType_def varType_def boolType_def astType_def

lemmas to_defs =
  stringValue_to_def intValue_to_def bigIntValue_to_def floatValue_to_def
  varValue_to_def boolValue_to_def astValue_to_def

subsection \<open>Conversion\<close>

lemma big_Int64_eq: "big_Int64 x = word_of_int x"
  by (simp add: big_Int64_def)

lemma sint_big_Int64_iff:
  "sint (big_Int64 x) = x \<longleftrightarrow> - (2 ^ 63) \<le> x \<and> x < 2 ^ 63"
proof
  assume "sint (big_Int64 x) = x"
  moreover have "- (2 ^ 63) \<le> sint (big_Int64 x)" "sint (big_Int64 x) < 2 ^ 63"
    using sint_ge [of "big_Int64 x"] sint_lt [of "big_Int64 x"] by simp_all
  ultimately show "- (2 ^ 63) \<le> x \<and> x < 2 ^ 63"
    by simp
next
  assume "- (2 ^ 63) \<le> x \<and> x < 2 ^ 63"
  then show "sint (big_Int64 x) = x"
    by (simp add: big_Int64_eq sint_sbintrunc' signed_take_bit_int_eq_self)
qed

lemma big_Int64_sint: "big_Int64 (sint v) = v"
  by (simp add: big_Int64_eq)

text \<open>
  C1, as amended. Converting a String, an Int or a Float value to its own tag succeeds and
  returns the value unchanged. A Var, a Bool or an Ast value has no conversion at all:
  converting it to any tag, its own included, fails with the ``cannot convert'' error.
\<close>

theorem to_own_tag:
  "Value_to (StringValue s) (getValueType (StringValue s)) = Inr (StringValue s) \<and>
   Value_to (IntValue i) (getValueType (IntValue i)) = Inr (IntValue i) \<and>
   Value_to (FloatValue f) (getValueType (FloatValue f)) = Inr (FloatValue f) \<and>
   Value_to (VarValue v n) (getValueType (VarValue v n)) = Inl (typeConvError varType varType) \<and>
   Value_to (BoolValue b) (getValueType (BoolValue b)) = Inl (typeConvError boolType boolType) \<and>
   Value_to (AstValue ns p) (getValueType (AstValue ns p)) = Inl (typeConvError astType astType) \<and>
   Value_to (VarValue v n) t = Inl (typeConvError varType t) \<and>
   Value_to (BoolValue b) t = Inl (typeConvError boolType t) \<and>
   Value_to (AstValue ns p) t = Inl (typeConvError astType t)"
  by (simp add: to_defs)

text \<open>C1 as stated fails: the Bool \<open>true\<close> does not convert to the tag Bool.\<close>

theorem to_own_tag_counterexample:
  "Value_to (BoolValue True) (getValueType (BoolValue True)) \<noteq> Inr (BoolValue True)"
  by (simp add: boolValue_to_def)

text \<open>
  C4. Converting a BigInt to Int succeeds, with an Int of the same value, exactly when the
  value lies in the 64-bit signed range; otherwise it fails with the conversion error.
\<close>

theorem bigInt_to_int:
  "(- (2 ^ 63) \<le> x \<and> x < 2 ^ 63 \<longrightarrow>
      (\<exists>i. Value_to (BigIntValue x) intType = Inr (IntValue i) \<and> sint i = x)) \<and>
   (\<not> (- (2 ^ 63) \<le> x \<and> x < 2 ^ 63) \<longrightarrow>
      Value_to (BigIntValue x) intType = Inl (typeConvError bigIntType intType))"
  using sint_big_Int64_iff [of x] by (auto simp: bigIntValue_to_def Let_def)

theorem bigInt_to_int_witness:
  "Value_to (BigIntValue (- 9223372036854775808)) intType = Inr (IntValue (- 9223372036854775808)) \<and>
   sint (- 9223372036854775808 :: int64) = - 9223372036854775808 \<and>
   Value_to (BigIntValue 9223372036854775808) intType = Inl (typeConvError bigIntType intType)"
  using bigInt_to_int [of "- 9223372036854775808"] bigInt_to_int [of "9223372036854775808"]
  by (auto simp: bigIntValue_to_def big_Int64_eq Let_def)

text \<open>
  C5. Converting an Int to BigInt always succeeds with the big integer of the same value,
  and converting that result back to Int succeeds and gives the original Int.
\<close>

theorem int_to_bigInt_roundtrip:
  "Value_to (IntValue v) bigIntType = Inr (BigIntValue (sint v)) \<and>
   (case Value_to (IntValue v) bigIntType of
      Inl e \<Rightarrow> Inl e
    | Inr b \<Rightarrow> Value_to b intType) = Inr (IntValue v)"
  by (simp add: intValue_to_def bigIntValue_to_def big_Int64_sint valueType_defs)

subsection \<open>Variable resolution\<close>

text \<open>
  C3. Resolving a Var: a name bound in the variable mapping resolves to the bound value;
  otherwise a name bound in the operator mapping resolves to the Var itself; otherwise the
  resolution fails with the error ``Undefined variable: '' followed by the name.
\<close>

theorem getVarValue_resolves:
  "(varMap env name = Some val \<longrightarrow>
      getVarValue env (Some (VarValue v name)) = Inr val) \<and>
   (varMap env name = None \<and> opMap env name = Some opVal \<longrightarrow>
      getVarValue env (Some (VarValue v name)) = Inr (VarValue v name)) \<and>
   (varMap env name = None \<and> opMap env name = None \<longrightarrow>
      getVarValue env (Some (VarValue v name)) = Inl (''Undefined variable: '' @ name))"
  by (simp add: getVarValue_def)

theorem getVarValue_resolves_witness:
  "varMap example_env ''x'' = Some (IntValue 5) \<and>
   getVarValue example_env (Some (VarValue ''x'' ''x'')) = Inr (IntValue 5) \<and>
   varMap example_env ''+'' = None \<and> opMap example_env ''+'' = Some () \<and>
   getVarValue example_env (Some (VarValue ''+'' ''+'')) = Inr (VarValue ''+'' ''+'') \<and>
   varMap example_env ''y'' = None \<and> opMap example_env ''y'' = None \<and>
   getVarValue example_env (Some (VarValue ''y'' ''y'')) = Inl ''Undefined variable: y''"
  using
    getVarValue_resolves [where env = example_env and name = "''x''" and val = "IntValue 5" and v = "''x''"]
    getVarValue_resolves [where env = example_env and name = "''+''" and opVal = "()" and v = "''+''"]
    getVarValue_resolves [where env = example_env and name = "''y''" and v = "''y''"]
  by (simp add: example_env_def)

subsection \<open>Recognizers and constructors\<close>

text \<open>
  C7, as amended. For every token that the String recognizer accepts, the constructed
  String value's payload is the whole token, delimiting quotes included, and its rendering
  is the token again: it begins and ends with the same quote character.
\<close>

theorem string_payload_is_token:
  "stringValue_ofType token \<Longrightarrow>
     Value_newValue (StringValue v) token = Some (StringValue token) \<and>
     Value_Str pr (StringValue token) = token \<and>
     (hd token = CHR 0x27 \<or> hd token = CHR 0x22) \<and> last token = hd token"
proof -
  assume a: "stringValue_ofType token"
  then have len: "2 \<le> length token"
    by (simp add: stringValue_ofType_def Let_def split: if_splits)
  then have ne: "token \<noteq> []" by auto
  have hd: "token ! 0 = hd token" using ne by (simp add: hd_conv_nth)
  have lst: "token ! (length token - 1) = last token" using ne by (simp add: last_conv_nth)
  from a len have "(hd token = CHR 0x27 \<and> last token = CHR 0x27) \<or>
      (hd token = CHR 0x22 \<and> last token = CHR 0x22)"
    unfolding stringValue_ofType_def Let_def hd lst by (simp split: if_splits)
  then show ?thesis
    by (auto simp: stringValue_newValue_def stringValue_Str_def)
qed

theorem string_payload_is_token_witness:
  "stringValue_ofType quoted_a \<and>
   Value_newValue (StringValue []) quoted_a = Some (StringValue quoted_a) \<and>
   Value_Str no_printers (StringValue quoted_a) = quoted_a \<and>
   hd quoted_a = CHR 0x27 \<and> last quoted_a = CHR 0x27"
proof -
  have h: "stringValue_ofType quoted_a"
    by (simp add: stringValue_ofType_def quoted_a_def)
  show ?thesis
    using h string_payload_is_token [OF h, of "[]" no_printers]
    by (simp add: quoted_a_def)
qed

text \<open>
  C7 as stated fails: the token \<open>'a'\<close> is accepted, and the payload and the rendering
  of the String built from it are \<open>'a'\<close> with its quotes, not \<open>a\<close>.
\<close>

theorem string_payload_counterexample:
  "stringValue_ofType quoted_a \<and>
   stringValue_newValue quoted_a = Some (StringValue quoted_a) \<and>
   quoted_a \<noteq> ''a'' \<and>
   stringValue_Str quoted_a = quoted_a"
  by (simp add: stringValue_ofType_def stringValue_newValue_def stringValue_Str_def quoted_a_def)

text \<open>
  C10. Constructing a Bool never fails: for every string the result is a Bool value, true
  exactly when the string is \<open>true\<close>.
\<close>

theorem boolValue_newValue_total:
  "boolValue_newValue str = Some (BoolValue (str = ''true'')) \<and>
   Value_newValue (BoolValue b) str = Some (BoolValue (str = ''true''))"
  by (simp add: boolValue_newValue_def)

text \<open>
  What the unanchored pattern accepts: the strings that contain an ASCII letter anywhere.
\<close>

lemma dead_not_nullable: "dead r \<Longrightarrow> \<not> nullable r"
  by (induction r) auto

lemma dead_deriv: "dead r \<Longrightarrow> dead (deriv c r)"
  by (induction r) (auto dest: dead_not_nullable)

lemma dead_match_prefix: "dead r \<Longrightarrow> \<not> match_prefix r s"
  by (induction s arbitrary: r) (auto dest: dead_not_nullable dead_deriv)

lemma nullable_match_prefix: "nullable r \<Longrightarrow> match_prefix r s"
  by (cases s) simp_all

lemma varPattern_not_nullable: "\<not> nullable varPattern"
  by (simp add: varPattern_def)

lemma match_prefix_varPattern: "match_prefix varPattern (c # cs) \<longleftrightarrow> is_letter c"
proof (cases "is_letter c")
  case True
  then have "nullable (deriv c varPattern)"
    by (auto simp: varPattern_def is_letter_def)
  then show ?thesis
    using True by (simp add: nullable_match_prefix varPattern_not_nullable)
next
  case False
  then have "dead (deriv c varPattern)"
    by (simp add: varPattern_def is_letter_def)
  then show ?thesis
    using False by (simp add: dead_match_prefix varPattern_not_nullable)
qed

lemma MatchString_varPattern: "MatchString varPattern s \<longleftrightarrow> (\<exists>c \<in> set s. is_letter c)"
proof (induction s)
  case Nil
  show ?case by (simp add: varPattern_not_nullable)
next
  case (Cons c cs)
  then show ?case
    by (simp only: MatchString.simps match_prefix_varPattern) auto
qed

lemma varValue_ofType_iff: "varValue_ofType s \<longleftrightarrow> (\<exists>c \<in> set s. is_letter c)"
  by (simp add: varValue_ofType_def MatchString_varPattern)

text \<open>
  C6 at the inputs where the code departs from it: the Var recognizer accepts the token
  \<open>1a\<close>, which begins with a digit, and the token \<open>a-b\<close>, which contains punctuation.
\<close>

theorem varValue_ofType_unanchored:
  "varValue_ofType ''1a'' \<and> varValue_ofType ''a-b''"
  by (simp add: varValue_ofType_def varPattern_def in_range_def byte_def)

subsection \<open>Decimal rendering read back\<close>

lemma byte_0: "byte CHR ''0'' = 48"
  by (simp add: byte_def)

lemma is_digit_iff: "is_digit c \<longleftrightarrow> 48 \<le> byte c \<and> byte c \<le> 57"
  by (simp add: is_digit_def byte_def)




lemma dval_ge: "list_all is_digit cs \<Longrightarrow> 0 \<le> a \<Longrightarrow> a \<le> dval a cs"
proof (induction cs arbitrary: a)
  case Nil
  then show ?case by simp
next
  case (Cons c cs)
  then have "0 \<le> byte c - 48" by (simp add: is_digit_iff)
  with Cons.prems have "a \<le> a * 10 + (byte c - 48)" "0 \<le> a * 10 + (byte c - 48)" by simp_all
  moreover have "a * 10 + (byte c - 48) \<le> dval (a * 10 + (byte c - 48)) cs"
    using Cons.IH [of "a * 10 + (byte c - 48)"] Cons.prems \<open>0 \<le> a * 10 + (byte c - 48)\<close> by simp
  ultimately show ?case by (simp add: byte_0)
qed







lemma mod_once: "(m::int) \<le> k \<Longrightarrow> k < 2 * m \<Longrightarrow> k mod m = k - m"
proof -
  assume a: "m \<le> k" "k < 2 * m"
  have "k mod m = (k - m) mod m" by simp
  also have "\<dots> = k - m" using a by (intro mod_pos_pos_trivial) simp_all
  finally show ?thesis .
qed

lemma cutoff10: "maxUint64 div 10 + 1 = (1844674407370955162 :: uint64)"
  by (simp add: maxUint64_def)

lemma maxUint64_top: "\<not> maxUint64 < (n :: uint64)"
  by (simp add: maxUint64_def not_less)

lemma digit_val_digit: "is_digit c \<Longrightarrow> digit_val c = Some (word_of_int (byte c - 48))"
  by (simp add: digit_val_def byte_0)

lemma is_digit_not_underscore: "is_digit c \<Longrightarrow> c \<noteq> CHR ''_''"
  by (auto simp: is_digit_iff byte_def)

lemma uint_small: "0 \<le> d \<Longrightarrow> d < 10 \<Longrightarrow> uint (word_of_int d :: uint64) = d"
  by (simp add: uint_word_of_int)

lemma ParseUint_loop_digits:
  "list_all is_digit cs \<Longrightarrow>
   ParseUint_loop 10 n us cs =
     (if dval (uint n) cs < 2 ^ 64 then (word_of_int (dval (uint n) cs), us, None)
      else (maxUint64, us, Some ErrRange))"
proof (induction cs arbitrary: n)
  case Nil
  have "uint n < 2 ^ 64" using uint_lt2p [of n] by simp
  then show ?case by simp
next
  case (Cons c cs)
  define d where "d = byte c - 48"
  define k where "k = uint n * 10 + d"
  from Cons.prems have dig: "is_digit c" and rest: "list_all is_digit cs" by simp_all
  from dig have d: "0 \<le> d" "d < 10" by (simp_all add: d_def is_digit_iff)
  have ud: "uint (word_of_int d :: uint64) = d" using d by (rule uint_small)
  have nlt: "uint n < 2 ^ 64" using uint_lt2p [of n] by simp
  have n0: "0 \<le> uint n" by simp
  have k0: "0 \<le> k" using d n0 by (simp add: k_def)
  have dv: "dval (uint n * 10 + (byte c - byte CHR ''0'')) cs = dval k cs"
    by (simp add: k_def d_def byte_0)
  have kle: "k \<le> dval k cs" using rest k0 by (rule dval_ge)
  have base: "\<not> (10 :: uint64) \<le> word_of_int d"
    using d by (simp add: word_le_def ud)
  show ?case
  proof (cases "1844674407370955162 \<le> uint n")
    case True
    then have "(1844674407370955162 :: uint64) \<le> n" by (simp add: word_le_def)
    moreover from True d have "2 ^ 64 \<le> k" by (simp add: k_def)
    with kle have "\<not> dval k cs < 2 ^ 64" by simp
    ultimately show ?thesis
      using dig base by (simp add: is_digit_not_underscore digit_val_digit d_def [symmetric] cutoff10 dv)
  next
    case False
    then have nc: "\<not> (1844674407370955162 :: uint64) \<le> n" by (simp add: word_le_def)
    from False have un': "uint (n * 10) = uint n * 10"
      using n0 by (simp add: uint_word_ariths)
    have un1: "uint (n * 10 + word_of_int d) = k mod 2 ^ 64"
      by (simp add: uint_word_ariths ud k_def mod_simps)
    show ?thesis
    proof (cases "k < 2 ^ 64")
      case True
      with k0 have "uint (n * 10 + word_of_int d) = k" by (simp add: un1)
      moreover then have "\<not> n * 10 + word_of_int d < n * 10"
        using d by (simp add: word_less_def un' k_def)
      moreover have "n * 10 + word_of_int d = word_of_int k"
        by (simp add: k_def)
      ultimately show ?thesis
        using dig base nc Cons.IH [OF rest, of "n * 10 + word_of_int d"]
        by (simp add: is_digit_not_underscore digit_val_digit d_def [symmetric] cutoff10 dv Let_def maxUint64_top)
    next
      case False
      from False d \<open>\<not> 1844674407370955162 \<le> uint n\<close> have "k < 2 * 2 ^ 64" by (simp add: k_def)
      with False have "k mod 2 ^ 64 = k - 2 ^ 64"
        using mod_once [of "2 ^ 64" k] by simp
      then have "n * 10 + word_of_int d < n * 10"
        using d \<open>\<not> 1844674407370955162 \<le> uint n\<close> n0 by (simp add: word_less_def un' un1 k_def)
      moreover from False kle have "\<not> dval k cs < 2 ^ 64" by simp
      ultimately show ?thesis
        using dig base nc
        by (simp add: is_digit_not_underscore digit_val_digit d_def [symmetric] cutoff10 dv Let_def)
    qed
  qed
qed









lemma scan_digit_digit: "is_digit c \<Longrightarrow> scan_digit c = byte c - byte CHR ''0''"
  by (simp add: scan_digit_def in_range_def is_digit_def)

lemma scan_loop_digits:
  "list_all is_digit cs \<Longrightarrow>
   scan_loop 10 prev sep count z cs =
     ((if cs = [] then prev else CHR ''0''), sep, count + length cs, dval z cs, [])"
proof (induction cs arbitrary: prev count z)
  case Nil
  then show ?case by simp
next
  case (Cons c cs)
  then have dig: "is_digit c" and rest: "list_all is_digit cs" by simp_all
  from dig have "\<not> 10 \<le> byte c - byte CHR ''0''"
    by (simp add: is_digit_iff byte_0)
  then show ?case
    using dig Cons.IH [OF rest]
    by (simp add: is_digit_not_underscore scan_digit_digit)
qed



lemma stringValue_ofType_hd:
  "s \<noteq> [] \<Longrightarrow> hd s \<noteq> CHR 0x27 \<Longrightarrow> hd s \<noteq> CHR 0x22 \<Longrightarrow> \<not> stringValue_ofType s"
  by (cases s) (simp_all add: stringValue_ofType_def Let_def)









lemma ParseUint_digits:
  assumes "list_all is_digit ds" "ds \<noteq> []" "hd ds \<noteq> CHR ''0''"
  shows "ParseUint ds =
     (if dval 0 ds < 2 ^ 64 then (word_of_int (dval 0 ds), None) else (maxUint64, Some ErrRange))"
proof -
  have loop: "ParseUint_loop 10 0 False ds =
     (if dval 0 ds < 2 ^ 64 then (word_of_int (dval 0 ds), False, None)
      else (maxUint64, False, Some ErrRange))"
    using ParseUint_loop_digits [OF assms(1), of 0 False] by simp
  show ?thesis
    using assms(2,3) by (simp add: ParseUint_def loop)
qed

lemma nat_scan_digits:
  assumes "list_all is_digit ds" "ds \<noteq> []" "hd ds \<noteq> CHR ''0''"
  shows "nat_scan ds = (dval 0 ds, [], None)"
proof -
  obtain c cs where s: "ds = c # cs"
    using assms(2) by (cases ds) auto
  have c: "c \<noteq> CHR ''0''" using assms(3) by (simp add: s)
  have "scan_loop 10 CHR ''.'' False 0 0 (c # cs) = (CHR ''0'', False, length (c # cs), dval 0 ds, [])"
    using scan_loop_digits [OF assms(1), of "CHR ''.''" False 0 0] assms(2)
    by (simp add: s [symmetric])
  then show ?thesis
    using c by (simp add: nat_scan_def s)
qed

lemma digits_hd:
  assumes "list_all is_digit ds" "ds \<noteq> []"
  shows "hd ds \<noteq> CHR ''-''" "hd ds \<noteq> CHR ''+''" "hd ds \<noteq> CHR 0x27" "hd ds \<noteq> CHR 0x22"
proof -
  have "is_digit (hd ds)" using assms by (cases ds) simp_all
  then show "hd ds \<noteq> CHR ''-''" "hd ds \<noteq> CHR ''+''" "hd ds \<noteq> CHR 0x27" "hd ds \<noteq> CHR 0x22"
    by (auto simp: is_digit_iff byte_def)
qed

lemma dval_nonneg: "list_all is_digit ds \<Longrightarrow> 0 \<le> dval 0 ds"
  using dval_ge [of ds 0] by simp

text \<open>The three shapes of a decimal token.\<close>

lemma decimal_token_cases:
  assumes "decimal_token s"
  obtains (plain) "token_digits s = s" "hd s \<noteq> CHR ''-''" "hd s \<noteq> CHR ''+''"
    | (minus) "s = CHR ''-'' # token_digits s"
    | (plus) "s = CHR ''+'' # token_digits s"
proof (cases "s \<noteq> [] \<and> (hd s = CHR ''-'' \<or> hd s = CHR ''+'')")
  case True
  then have "s = hd s # token_digits s" by (auto simp: token_digits_def)
  with True show ?thesis using minus plus by auto
next
  case False
  then have "token_digits s = s" by (auto simp: token_digits_def)
  moreover from this assms have "s \<noteq> []" by (simp add: decimal_token_def)
  ultimately show ?thesis using False plain by auto
qed

lemma ParseInt_digits:
  assumes "list_all is_digit ds" "ds \<noteq> []" "hd ds \<noteq> CHR ''0''"
  shows "ParseInt ds =
     (if dval 0 ds < 2 ^ 63 then (word_of_int (dval 0 ds), None) else (2 ^ 63 - 1, Some ErrRange))"
proof -
  define D where "D = dval 0 ds"
  have D0: "0 \<le> D" unfolding D_def using assms(1) by (rule dval_nonneg)
  note pu = ParseUint_digits [OF assms, folded D_def]
  note hd = digits_hd [OF assms(1,2)]
  show ?thesis
  proof (cases "D < 2 ^ 64")
    case True
    have u: "uint (word_of_int D :: uint64) = D"
      using True D0 by (simp add: uint_word_of_int)
    have "(2 ^ 63 :: uint64) \<le> word_of_int D \<longleftrightarrow> 2 ^ 63 \<le> D"
      by (simp add: word_le_def u)
    then show ?thesis
      using True hd assms(2) by (auto simp: ParseInt_def pu D_def [symmetric])
  next
    case False
    have "(2 ^ 63 :: uint64) \<le> maxUint64" by code_simp
    then show ?thesis
      using False hd assms(2) by (auto simp: ParseInt_def pu D_def [symmetric])
  qed
qed

lemma ParseInt_plus_digits:
  assumes "list_all is_digit ds" "ds \<noteq> []" "hd ds \<noteq> CHR ''0''"
  shows "ParseInt (CHR ''+'' # ds) =
     (if dval 0 ds < 2 ^ 63 then (word_of_int (dval 0 ds), None) else (2 ^ 63 - 1, Some ErrRange))"
proof -
  define D where "D = dval 0 ds"
  have D0: "0 \<le> D" unfolding D_def using assms(1) by (rule dval_nonneg)
  note pu = ParseUint_digits [OF assms, folded D_def]
  show ?thesis
  proof (cases "D < 2 ^ 64")
    case True
    have u: "uint (word_of_int D :: uint64) = D"
      using True D0 by (simp add: uint_word_of_int)
    have "(2 ^ 63 :: uint64) \<le> word_of_int D \<longleftrightarrow> 2 ^ 63 \<le> D"
      by (simp add: word_le_def u)
    then show ?thesis
      using True by (auto simp: ParseInt_def pu D_def [symmetric])
  next
    case False
    have "(2 ^ 63 :: uint64) \<le> maxUint64" by code_simp
    then show ?thesis
      using False by (auto simp: ParseInt_def pu D_def [symmetric])
  qed
qed

lemma ParseInt_minus_digits:
  assumes "list_all is_digit ds" "ds \<noteq> []" "hd ds \<noteq> CHR ''0''"
  shows "ParseInt (CHR ''-'' # ds) =
     (if dval 0 ds \<le> 2 ^ 63 then (- word_of_int (dval 0 ds), None) else (- (2 ^ 63), Some ErrRange))"
proof -
  define D where "D = dval 0 ds"
  have D0: "0 \<le> D" unfolding D_def using assms(1) by (rule dval_nonneg)
  note pu = ParseUint_digits [OF assms, folded D_def]
  show ?thesis
  proof (cases "D < 2 ^ 64")
    case True
    have u: "uint (word_of_int D :: uint64) = D"
      using True D0 by (simp add: uint_word_of_int)
    have "(2 ^ 63 :: uint64) < word_of_int D \<longleftrightarrow> 2 ^ 63 < D"
      by (simp add: word_less_def u)
    then show ?thesis
      using True by (auto simp: ParseInt_def pu D_def [symmetric])
  next
    case False
    have "(2 ^ 63 :: uint64) < maxUint64" by code_simp
    then show ?thesis
      using False by (auto simp: ParseInt_def pu D_def [symmetric])
  qed
qed

lemma SetString_decimal_token:
  assumes "decimal_token s"
  shows "SetString s = Some (decimal_value s)"
proof -
  from assms have ds: "list_all is_digit (token_digits s)" "token_digits s \<noteq> []"
      "hd (token_digits s) \<noteq> CHR ''0''"
    by (simp_all add: decimal_token_def)
  note sc = nat_scan_digits [OF ds]
  from assms show ?thesis
  proof (cases rule: decimal_token_cases)
    case plain
    then obtain c cs where s: "s = c # cs" "c \<noteq> CHR ''-''" "c \<noteq> CHR ''+''"
      using ds(2) by (cases s) auto
    then show ?thesis
      using sc plain by (simp add: SetString_def scanSign_def decimal_value_def)
  next
    case minus
    then obtain r where s: "s = CHR ''-'' # r" "token_digits s = r" by auto
    then show ?thesis
      using sc by (simp add: SetString_def scanSign_def decimal_value_def)
  next
    case plus
    then obtain r where s: "s = CHR ''+'' # r" "token_digits s = r" by auto
    then show ?thesis
      using sc by (simp add: SetString_def scanSign_def decimal_value_def)
  qed
qed

lemma not_string_decimal_token:
  assumes "decimal_token s"
  shows "\<not> stringValue_ofType s"
proof -
  from assms have ds: "list_all is_digit (token_digits s)" "token_digits s \<noteq> []"
    by (simp_all add: decimal_token_def)
  from assms show ?thesis
  proof (cases rule: decimal_token_cases)
    case plain
    with digits_hd [OF ds] ds(2) show ?thesis
      by (intro stringValue_ofType_hd) auto
  next
    case minus
    then have "hd s = CHR ''-''" "s \<noteq> []" by (metis list.sel(1), metis list.distinct(1))
    then show ?thesis by (intro stringValue_ofType_hd) auto
  next
    case plus
    then have "hd s = CHR ''+''" "s \<noteq> []" by (metis list.sel(1), metis list.distinct(1))
    then show ?thesis by (intro stringValue_ofType_hd) auto
  qed
qed

lemma ParseInt_decimal_token:
  assumes "decimal_token s"
  shows "ParseInt s =
     (if - (2 ^ 63) \<le> decimal_value s \<and> decimal_value s < 2 ^ 63
      then (word_of_int (decimal_value s), None)
      else (if decimal_value s < 0 then - (2 ^ 63) else 2 ^ 63 - 1, Some ErrRange))"
proof -
  from assms have ds: "list_all is_digit (token_digits s)" "token_digits s \<noteq> []"
      "hd (token_digits s) \<noteq> CHR ''0''"
    by (simp_all add: decimal_token_def)
  have D0: "0 \<le> dval 0 (token_digits s)" using ds(1) by (rule dval_nonneg)
  from assms show ?thesis
  proof (cases rule: decimal_token_cases)
    case plain
    then have v: "decimal_value s = dval 0 s"
      by (auto simp: decimal_value_def)
    show ?thesis
      using ParseInt_digits [OF ds] D0 plain by (auto simp: v)
  next
    case minus
    then obtain r where s: "s = CHR ''-'' # r" and r: "token_digits s = r" by auto
    have v: "decimal_value (CHR ''-'' # r) = - dval 0 r"
      using r by (simp add: decimal_value_def s)
    have "ParseInt (CHR ''-'' # r) =
       (if dval 0 r \<le> 2 ^ 63 then (- word_of_int (dval 0 r), None) else (- (2 ^ 63), Some ErrRange))"
      using ParseInt_minus_digits [OF ds] by (simp add: r)
    moreover have "0 \<le> dval 0 r" using D0 r by simp
    ultimately show ?thesis
      by (auto simp: s v)
  next
    case plus
    then obtain r where s: "s = CHR ''+'' # r" and r: "token_digits s = r" by auto
    have v: "decimal_value (CHR ''+'' # r) = dval 0 r"
      using r by (simp add: decimal_value_def s)
    have "ParseInt (CHR ''+'' # r) =
       (if dval 0 r < 2 ^ 63 then (word_of_int (dval 0 r), None) else (2 ^ 63 - 1, Some ErrRange))"
      using ParseInt_plus_digits [OF ds] by (simp add: r)
    moreover have "0 \<le> dval 0 r" using D0 r by simp
    ultimately show ?thesis
      by (auto simp: s v)
  qed
qed

lemma getValue_decimal_token_big:
  assumes "decimal_token s" "decimal_value s < - (2 ^ 63) \<or> 2 ^ 63 \<le> decimal_value s"
  shows "getValue s = Inr (Some (BigIntValue (decimal_value s)))"
proof -
  have "\<not> intValue_ofType s"
    using ParseInt_decimal_token [OF assms(1)] assms(2)
    by (auto simp: intValue_ofType_def)
  then show ?thesis
    by (simp add: getValue_def builtinTypes_def iface_def not_string_decimal_token [OF assms(1)]
        bigIntValue_ofType_def bigIntValue_newValue_def SetString_decimal_token [OF assms(1)])
qed

lemma getValue_decimal_token_int:
  assumes "decimal_token s" "- (2 ^ 63) \<le> decimal_value s" "decimal_value s < 2 ^ 63"
  shows "getValue s = Inr (Some (IntValue (word_of_int (decimal_value s))))"
  using ParseInt_decimal_token [OF assms(1)] assms(2,3)
  by (simp add: getValue_def builtinTypes_def iface_def not_string_decimal_token [OF assms(1)]
      intValue_ofType_def intValue_newValue_def)

subsection \<open>Classification\<close>

text \<open>
  C2. The token \<open>5\<close> classifies as Int, the token \<open>99999999999999999999\<close> as BigInt,
  the token \<open>3.14\<close> as Float and the token \<open>true\<close> as Bool. In general, a decimal
  integer token whose number exceeds the 64-bit signed range classifies as the BigInt of
  that number, and one whose number is in the range classifies as the Int of that number.
\<close>

theorem getValue_precedence:
  "getValue ''5'' = Inr (Some (IntValue 5)) \<and>
   getValue ''99999999999999999999'' = Inr (Some (BigIntValue 99999999999999999999)) \<and>
   getValue ''3.14'' = Inr (Some (FloatValue 0x40091EB851EB851F)) \<and>
   getValue ''true'' = Inr (Some (BoolValue True)) \<and>
   (decimal_token s \<and> (decimal_value s < - (2 ^ 63) \<or> 2 ^ 63 \<le> decimal_value s) \<longrightarrow>
      getValue s = Inr (Some (BigIntValue (decimal_value s)))) \<and>
   (decimal_token s \<and> - (2 ^ 63) \<le> decimal_value s \<and> decimal_value s < 2 ^ 63 \<longrightarrow>
      getValue s = Inr (Some (IntValue (word_of_int (decimal_value s)))))"
proof (intro conjI impI)
  show "getValue ''5'' = Inr (Some (IntValue 5))" by code_simp
  show "getValue ''99999999999999999999'' = Inr (Some (BigIntValue 99999999999999999999))"
    by code_simp
  show "getValue ''3.14'' = Inr (Some (FloatValue 0x40091EB851EB851F))" by code_simp
  show "getValue ''true'' = Inr (Some (BoolValue True))" by code_simp
next
  assume "decimal_token s \<and> (decimal_value s < - (2 ^ 63) \<or> 2 ^ 63 \<le> decimal_value s)"
  then show "getValue s = Inr (Some (BigIntValue (decimal_value s)))"
    by (simp add: getValue_decimal_token_big)
next
  assume "decimal_token s \<and> - (2 ^ 63) \<le> decimal_value s \<and> decimal_value s < 2 ^ 63"
  then show "getValue s = Inr (Some (IntValue (word_of_int (decimal_value s))))"
    by (simp add: getValue_decimal_token_int)
qed

theorem getValue_precedence_witness:
  "decimal_token ''-99999999999999999999'' \<and>
   decimal_value ''-99999999999999999999'' = - 99999999999999999999 \<and>
   decimal_value ''-99999999999999999999'' < - (2 ^ 63) \<and>
   getValue ''-99999999999999999999'' = Inr (Some (BigIntValue (- 99999999999999999999))) \<and>
   decimal_token ''+42'' \<and> decimal_value ''+42'' = 42 \<and>
   getValue ''+42'' = Inr (Some (IntValue 42))"
proof -
  have t1: "decimal_token ''-99999999999999999999''" by code_simp
  have v1: "decimal_value ''-99999999999999999999'' = - 99999999999999999999" by code_simp
  have t2: "decimal_token ''+42''" by code_simp
  have v2: "decimal_value ''+42'' = 42" by code_simp
  show ?thesis
    using t1 v1 t2 v2 getValue_precedence [of "''-99999999999999999999''"]
      getValue_precedence [of "''+42''"]
    by simp
qed




lemma intValue_newValue_None: "intValue_newValue token = None \<longleftrightarrow> \<not> intValue_ofType token"
  by (auto simp: intValue_newValue_def intValue_ofType_def split: prod.splits option.splits)

lemma bigIntValue_newValue_None:
  "bigIntValue_newValue token = None \<longleftrightarrow> \<not> bigIntValue_ofType token"
  by (auto simp: bigIntValue_newValue_def bigIntValue_ofType_def split: option.splits)

lemma floatValue_newValue_None:
  "floatValue_newValue token = None \<longleftrightarrow> \<not> floatValue_ofType token"
  by (auto simp: floatValue_newValue_def floatValue_ofType_def split: prod.splits option.splits)














end
